theory Spec2Isabelle
  imports Complex_Main "HOL-Library.AList"
begin

section \<open>Values\<close>

text \<open>
  The numbers of the calculator are numpy doubles: the price and CPI columns are float64
  columns of a pandas frame, and every product, quotient and power of the calculator has at
  least one numpy operand. Such arithmetic never raises: it yields an infinity or NaN
  instead. The model keeps the three special values and takes the finite values as exact
  reals: rounding error, overflow of finite results and the sign of zero are outside the
  model.
\<close>

datatype fl = Fin real | PInf | NInf | NaN

instantiation fl :: "{plus, minus, times, inverse}"
begin

definition plus_fl :: "fl \<Rightarrow> fl \<Rightarrow> fl" where
  "plus_fl a b =
     (case (a, b) of
        (NaN, _) \<Rightarrow> NaN
      | (_, NaN) \<Rightarrow> NaN
      | (PInf, NInf) \<Rightarrow> NaN
      | (NInf, PInf) \<Rightarrow> NaN
      | (PInf, _) \<Rightarrow> PInf
      | (_, PInf) \<Rightarrow> PInf
      | (NInf, _) \<Rightarrow> NInf
      | (_, NInf) \<Rightarrow> NInf
      | (Fin x, Fin y) \<Rightarrow> Fin (x + y))"

definition minus_fl :: "fl \<Rightarrow> fl \<Rightarrow> fl" where
  "minus_fl a b =
     (case (a, b) of
        (NaN, _) \<Rightarrow> NaN
      | (_, NaN) \<Rightarrow> NaN
      | (PInf, PInf) \<Rightarrow> NaN
      | (NInf, NInf) \<Rightarrow> NaN
      | (PInf, _) \<Rightarrow> PInf
      | (_, NInf) \<Rightarrow> PInf
      | (NInf, _) \<Rightarrow> NInf
      | (_, PInf) \<Rightarrow> NInf
      | (Fin x, Fin y) \<Rightarrow> Fin (x - y))"

definition times_fl :: "fl \<Rightarrow> fl \<Rightarrow> fl" where
  "times_fl a b =
     (case (a, b) of
        (NaN, _) \<Rightarrow> NaN
      | (_, NaN) \<Rightarrow> NaN
      | (Fin x, Fin y) \<Rightarrow> Fin (x * y)
      | (Fin x, PInf) \<Rightarrow> (if x = 0 then NaN else if 0 < x then PInf else NInf)
      | (Fin x, NInf) \<Rightarrow> (if x = 0 then NaN else if 0 < x then NInf else PInf)
      | (PInf, Fin y) \<Rightarrow> (if y = 0 then NaN else if 0 < y then PInf else NInf)
      | (NInf, Fin y) \<Rightarrow> (if y = 0 then NaN else if 0 < y then NInf else PInf)
      | (PInf, PInf) \<Rightarrow> PInf
      | (NInf, NInf) \<Rightarrow> PInf
      | (PInf, NInf) \<Rightarrow> NInf
      | (NInf, PInf) \<Rightarrow> NInf)"

definition divide_fl :: "fl \<Rightarrow> fl \<Rightarrow> fl" where
  "divide_fl a b =
     (case (a, b) of
        (NaN, _) \<Rightarrow> NaN
      | (_, NaN) \<Rightarrow> NaN
      | (Fin x, Fin y) \<Rightarrow>
          (if y = 0 then (if x = 0 then NaN else if 0 < x then PInf else NInf)
           else Fin (x / y))
      | (Fin x, _) \<Rightarrow> Fin 0
      | (PInf, Fin y) \<Rightarrow> (if 0 \<le> y then PInf else NInf)
      | (NInf, Fin y) \<Rightarrow> (if 0 \<le> y then NInf else PInf)
      | (_, _) \<Rightarrow> NaN)"

definition inverse_fl :: "fl \<Rightarrow> fl" where
  "inverse_fl a = divide (Fin 1) a"

instance ..

end

definition isna :: "fl \<Rightarrow> bool" where
  "isna v = (v = NaN)"

text \<open>
  \<open>round(x, 2)\<close>: to the nearest multiple of 0.01, a tie going to the even neighbour; an
  infinity or NaN is returned as it is. The model rounds the exact real. The program rounds
  a double, which lies a little off the exact value: prices 4000 and 4001 give the exact
  tie 0.025 here and a double above it there. Which digits a computed field shows is
  therefore not decided by this model; what it proves about such a field is the
  composition of operations that yields it.
\<close>

definition round_half_even :: "real \<Rightarrow> int" where
  "round_half_even x =
     (let f = \<lfloor>x\<rfloor>; d = x - of_int f
      in if d < 1 / 2 then f else if 1 / 2 < d then f + 1
         else if even f then f else f + 1)"

fun round2 :: "fl \<Rightarrow> fl" where
  "round2 (Fin x) = Fin (of_int (round_half_even (x * 100)) / 100)"
| "round2 v = v"

text \<open>
  \<open>base ** e\<close> for a numpy double \<open>base\<close> and a Python float \<open>e\<close> (C's \<open>pow\<close>): a
  negative base with a fractional exponent gives NaN, not an exception.
\<close>

definition fl_pow :: "fl \<Rightarrow> real \<Rightarrow> fl" where
  "fl_pow base e =
     (if e = 0 then Fin 1
      else case base of
        NaN \<Rightarrow> NaN
      | PInf \<Rightarrow> (if 0 < e then PInf else Fin 0)
      | NInf \<Rightarrow> (if e < 0 then Fin 0
                 else if e \<in> \<int> \<and> odd \<lfloor>e\<rfloor> then NInf else PInf)
      | Fin x \<Rightarrow>
          (if 0 < x then Fin (x powr e)
           else if x = 0 then (if 0 < e then Fin 0 else PInf)
           else if e \<in> \<int> then Fin (x powi \<lfloor>e\<rfloor>) else NaN))"

datatype exn =
    KeyError string
  | ValueError string
  | TypeError string
  | IndexError string
  | ZeroDivisionError string

text \<open>
  \<open>str(e)\<close>, as the f-strings of the two handlers format it: the message, and for a
  \<open>KeyError\<close> the key between single quotes.
\<close>

definition quoted :: "string \<Rightarrow> string" where
  "quoted s = [CHR 0x27] @ s @ [CHR 0x27]"

fun str_exn :: "exn \<Rightarrow> string" where
  "str_exn (KeyError k) = quoted k"
| "str_exn (ValueError m) = m"
| "str_exn (TypeError m) = m"
| "str_exn (IndexError m) = m"
| "str_exn (ZeroDivisionError m) = m"

text \<open>A Python float divided by a Python float: the one division that can raise.\<close>

definition float_truediv :: "real \<Rightarrow> real \<Rightarrow> exn + real" where
  "float_truediv a b =
     (if b = 0 then Inl (ZeroDivisionError ''float division by zero'') else Inr (a / b))"

text \<open>The values held by the result dicts: strings and floats.\<close>

datatype pyval = Str string | Num fl

definition truediv :: "pyval \<Rightarrow> fl \<Rightarrow> exn + fl" where
  "truediv a b =
     (case a of
        Num x \<Rightarrow> Inr (x / b)
      | Str _ \<Rightarrow>
          Inl (TypeError (''unsupported operand type(s) for /: '' @ quoted ''str''
                          @ '' and '' @ quoted ''float'')))"

definition mul :: "pyval \<Rightarrow> fl \<Rightarrow> exn + fl" where
  "mul a b =
     (case a of
        Num x \<Rightarrow> Inr (x * b)
      | Str _ \<Rightarrow>
          Inl (TypeError (''can'' @ [CHR 0x27] @ ''t multiply sequence by non-int of type ''
                          @ quoted ''numpy.float64'')))"

section \<open>Dicts, the store and the monad of statements\<close>

text \<open>
  A dict is an association list in insertion order: an assignment replaces the value of an
  existing key in place or appends a new key, \<open>pop\<close> removes the key. Dicts are objects:
  the store holds them at addresses, a dict literal allocates the next address, and a
  reference is an address. The state also holds the lines printed so far.
\<close>

type_synonym pydict = "(string \<times> pyval) list"

type_synonym ref = nat

record pystate =
  heap :: "pydict list"
  stdout :: "string list"

type_synonym ('e, 'a) py = "pystate \<Rightarrow> ('e + 'a) \<times> pystate"

definition ret :: "'a \<Rightarrow> ('e, 'a) py" where
  "ret v = (\<lambda>s. (Inr v, s))"

definition raise :: "'e \<Rightarrow> ('e, 'a) py" where
  "raise e = (\<lambda>s. (Inl e, s))"

definition lift :: "'e + 'a \<Rightarrow> ('e, 'a) py" where
  "lift x = (\<lambda>s. (x, s))"

definition bind :: "('e, 'a) py \<Rightarrow> ('a \<Rightarrow> ('e, 'b) py) \<Rightarrow> ('e, 'b) py" where
  "bind m f = (\<lambda>s. case m s of (Inl e, s') \<Rightarrow> (Inl e, s') | (Inr v, s') \<Rightarrow> f v s')"

text \<open>\<open>try: body except Exception as e: handler\<close>.\<close>

definition try_except :: "('e, 'a) py \<Rightarrow> ('e \<Rightarrow> ('f, 'a) py) \<Rightarrow> ('f, 'a) py" where
  "try_except body handler =
     (\<lambda>s. case body s of (Inl e, s') \<Rightarrow> handler e s' | (Inr v, s') \<Rightarrow> (Inr v, s'))"

definition print :: "string \<Rightarrow> ('e, unit) py" where
  "print line = (\<lambda>s. (Inr (), s\<lparr>stdout := stdout s @ [line]\<rparr>))"

definition new_dict :: "pydict \<Rightarrow> ('e, ref) py" where
  "new_dict d = (\<lambda>s. (Inr (length (heap s)), s\<lparr>heap := heap s @ [d]\<rparr>))"

definition contains :: "ref \<Rightarrow> string \<Rightarrow> ('e, bool) py" where
  "contains r k = (\<lambda>s. (Inr (k \<in> set (map fst (heap s ! r))), s))"

definition getitem :: "ref \<Rightarrow> string \<Rightarrow> (exn, pyval) py" where
  "getitem r k =
     (\<lambda>s. case map_of (heap s ! r) k of
             None \<Rightarrow> (Inl (KeyError k), s)
           | Some v \<Rightarrow> (Inr v, s))"

definition setitem :: "ref \<Rightarrow> string \<Rightarrow> pyval \<Rightarrow> ('e, unit) py" where
  "setitem r k v =
     (\<lambda>s. (Inr (), s\<lparr>heap := (heap s)[r := AList.update k v (heap s ! r)]\<rparr>))"

definition pop :: "ref \<Rightarrow> string \<Rightarrow> ('e, unit) py" where
  "pop r k = (\<lambda>s. (Inr (), s\<lparr>heap := (heap s)[r := AList.delete k (heap s ! r)]\<rparr>))"

section \<open>Time series\<close>

text \<open>
  A timestamp is a number of nanoseconds since the epoch. A frame is what
  \<open>fetch_fred_data\<close> builds: rows of a timestamp index and a float column \<open>value\<close>,
  in the order of the upstream response.
\<close>

type_synonym timestamp = int

type_synonym dataframe = "(timestamp \<times> fl) list"

text \<open>\<open>(end_dt - start_dt).days\<close>: whole days, rounded towards minus infinity.\<close>

definition days :: "int \<Rightarrow> int" where
  "days td = td div 86400000000000"

text \<open>\<open>df[(df.index >= start_dt) & (df.index <= end_dt)]\<close>.\<close>

definition in_range :: "timestamp \<Rightarrow> timestamp \<Rightarrow> dataframe \<Rightarrow> dataframe" where
  "in_range start_dt end_dt df = filter (\<lambda>(t, v). start_dt \<le> t \<and> t \<le> end_dt) df"

text \<open>\<open>df['value'].iloc[0]\<close> and \<open>df['value'].iloc[-1]\<close>.\<close>

definition iloc_first :: "dataframe \<Rightarrow> exn + fl" where
  "iloc_first df =
     (case df of
        [] \<Rightarrow> Inl (IndexError ''single positional indexer is out-of-bounds'')
      | row # _ \<Rightarrow> Inr (snd row))"

definition iloc_last :: "dataframe \<Rightarrow> exn + fl" where
  "iloc_last df =
     (case df of
        [] \<Rightarrow> Inl (IndexError ''single positional indexer is out-of-bounds'')
      | _ # _ \<Rightarrow> Inr (snd (last df)))"

text \<open>
  \<open>Series.asof(where)\<close> for one timestamp: the index must be sorted; before the first
  row the answer is NaN; otherwise the scan starts at the last row at or before
  \<open>where\<close> and walks back over NaN values, stopping at row 0.
\<close>

fun asof_scan :: "fl list \<Rightarrow> nat \<Rightarrow> fl" where
  "asof_scan vals 0 = vals ! 0"
| "asof_scan vals (Suc n) =
     (if isna (vals ! Suc n) then asof_scan vals n else vals ! Suc n)"

definition searchsorted_right :: "timestamp list \<Rightarrow> timestamp \<Rightarrow> nat" where
  "searchsorted_right idx w = length (takeWhile (\<lambda>t. t \<le> w) idx)"

definition asof :: "dataframe \<Rightarrow> timestamp \<Rightarrow> exn + fl" where
  "asof series w =
     (if \<not> sorted (map fst series) then Inl (ValueError ''asof requires a sorted index'')
      else case series of
        [] \<Rightarrow> Inl (IndexError ''index 0 is out of bounds for axis 0 with size 0'')
      | (start, _) # _ \<Rightarrow>
          if w < start then Inr NaN
          else let loc = searchsorted_right (map fst series) w;
                   loc = (if 0 < loc then loc - 1 else loc)
               in Inr (asof_scan (map snd series) loc))"

section \<open>Library functions taken as parameters\<close>

text \<open>
  \<open>pd.to_datetime\<close> on a string (it raises on text that is no date),
  \<open>date.strftime('%Y-%m-%d')\<close> on a calendar date (a day number), and \<open>str\<close> of a
  float.
\<close>

record pylib =
  to_datetime :: "string \<Rightarrow> exn + timestamp"
  strftime :: "int \<Rightarrow> string"
  float_str :: "fl \<Rightarrow> string"

section \<open>calculator.py\<close>

text \<open>Lines 25 to 49 of \<open>calculate_nominal_return\<close>: the computation and the record.\<close>

definition nominal_record ::
  "string \<Rightarrow> string \<Rightarrow> fl \<Rightarrow> timestamp \<Rightarrow> timestamp \<Rightarrow> dataframe \<Rightarrow> (exn, ref) py" where
  "nominal_record start_date end_date initial_investment start_dt end_dt relevant_data =
     bind (lift (iloc_first relevant_data)) (\<lambda>start_price.
     bind (lift (iloc_last relevant_data)) (\<lambda>end_price.
       let price_return = end_price / start_price - Fin 1;
           years = real_of_int (days (end_dt - start_dt)) / 365.25;
           estimated_total_return_factor = Fin 1 + price_return;
           final_value = initial_investment * estimated_total_return_factor;
           total_return_pct = estimated_total_return_factor - Fin 1
       in new_dict
            [(''start_date'', Str start_date),
             (''end_date'', Str end_date),
             (''initial_investment'', Num initial_investment),
             (''final_nominal_value'', Num (round2 final_value)),
             (''nominal_total_return_pct'', Num (round2 (total_return_pct * Fin 100))),
             (''calculation_notes'',
                Str ''Simplified calculation without actual dividend reinvestment.'')]))"

text \<open>The body of the \<open>try\<close> of \<open>calculate_nominal_return\<close>, lines 13 to 49.\<close>

definition nominal_try ::
  "pylib \<Rightarrow> string \<Rightarrow> string \<Rightarrow> fl \<Rightarrow> dataframe \<Rightarrow> (exn, ref) py" where
  "nominal_try L start_date end_date initial_investment sp500_data =
     bind (lift (to_datetime L start_date)) (\<lambda>start_dt.
     bind (lift (to_datetime L end_date)) (\<lambda>end_dt.
       let relevant_data = in_range start_dt end_dt sp500_data
       in if relevant_data = [] \<or> start_dt < fst (hd relevant_data)
             \<or> fst (last relevant_data) < end_dt
          then bind (print (''Warning: Data missing for range '' @ start_date
                              @ '' to '' @ end_date)) (\<lambda>_.
                 if relevant_data = []
                 then new_dict
                        [(''error'',
                          Str ''Insufficient S&P 500 data for the selected period.'')]
                 else nominal_record start_date end_date initial_investment
                        start_dt end_dt relevant_data)
          else nominal_record start_date end_date initial_investment
                 start_dt end_dt relevant_data))"

text \<open>Its \<open>except Exception as e\<close> clause, lines 52 and 53.\<close>

definition nominal_except :: "exn \<Rightarrow> (exn, ref) py" where
  "nominal_except e =
     bind (print (''Error in nominal calculation: '' @ str_exn e)) (\<lambda>_.
       new_dict [(''error'', Str (''Calculation error: '' @ str_exn e))])"

definition calculate_nominal_return ::
  "pylib \<Rightarrow> string \<Rightarrow> string \<Rightarrow> fl \<Rightarrow> dataframe \<Rightarrow> (exn, ref) py" where
  "calculate_nominal_return L start_date end_date initial_investment sp500_data =
     try_except (nominal_try L start_date end_date initial_investment sp500_data)
       nominal_except"

text \<open>
  Lines 83 to 92 of \<open>calculate_real_return\<close>. The literal \<open>0\<close> of the else branch is
  Python's integer zero, which equals the float zero; the model stores the float.
\<close>

definition cagr_fields ::
  "ref \<Rightarrow> fl \<Rightarrow> fl \<Rightarrow> timestamp \<Rightarrow> timestamp \<Rightarrow> (exn, unit) py" where
  "cagr_fields nominal_result nominal_total_return_factor real_return_factor start_dt end_dt =
     (let years = real_of_int (days (end_dt - start_dt)) / 365.25
      in if 0 < years
         then bind (lift (float_truediv 1 years)) (\<lambda>e1.
              let nominal_cagr = (fl_pow nominal_total_return_factor e1 - Fin 1) * Fin 100
              in bind (lift (float_truediv 1 years)) (\<lambda>e2.
              let real_cagr = (fl_pow real_return_factor e2 - Fin 1) * Fin 100
              in bind (setitem nominal_result ''nominal_cagr_pct'' (Num (round2 nominal_cagr)))
                   (\<lambda>_. setitem nominal_result ''real_cagr_pct'' (Num (round2 real_cagr)))))
         else bind (setitem nominal_result ''nominal_cagr_pct'' (Num (Fin 0)))
                (\<lambda>_. setitem nominal_result ''real_cagr_pct'' (Num (Fin 0))))"

text \<open>Lines 71 to 97 of \<open>calculate_real_return\<close>.\<close>

definition real_record ::
  "ref \<Rightarrow> fl \<Rightarrow> fl \<Rightarrow> timestamp \<Rightarrow> timestamp \<Rightarrow> (exn, ref) py" where
  "real_record nominal_result cpi_start_val cpi_end_val start_dt end_dt =
     (let inflation_rate = cpi_end_val / cpi_start_val - Fin 1
      in bind (getitem nominal_result ''nominal_total_return_pct'') (\<lambda>pct.
         bind (lift (truediv pct (Fin 100))) (\<lambda>q.
           let nominal_total_return_factor = Fin 1 + q;
               real_return_factor = nominal_total_return_factor / (Fin 1 + inflation_rate);
               real_total_return_pct = (real_return_factor - Fin 1) * Fin 100
           in bind (getitem nominal_result ''initial_investment'') (\<lambda>inv.
              bind (lift (mul inv real_return_factor)) (\<lambda>final_real_value.
              bind (setitem nominal_result ''final_real_value''
                      (Num (round2 final_real_value))) (\<lambda>_.
              bind (setitem nominal_result ''real_total_return_pct''
                      (Num (round2 real_total_return_pct))) (\<lambda>_.
              bind (setitem nominal_result ''total_inflation_pct''
                      (Num (round2 (inflation_rate * Fin 100)))) (\<lambda>_.
              bind (cagr_fields nominal_result nominal_total_return_factor
                      real_return_factor start_dt end_dt) (\<lambda>_.
              bind (pop nominal_result ''calculation_notes'') (\<lambda>_.
              bind (setitem nominal_result ''calculation_notes''
                      (Str (''Simplified nominal return (no dividend reinvestment). ''
                            @ ''Real return adjusted using CPI.''))) (\<lambda>_.
              ret nominal_result)))))))))))"

text \<open>The body of the \<open>try\<close> of \<open>calculate_real_return\<close>, lines 61 to 97.\<close>

definition real_try ::
  "pylib \<Rightarrow> ref \<Rightarrow> string \<Rightarrow> string \<Rightarrow> dataframe \<Rightarrow> (exn, ref) py" where
  "real_try L nominal_result start_date end_date cpi_data =
     bind (lift (to_datetime L start_date)) (\<lambda>start_dt.
     bind (lift (to_datetime L end_date)) (\<lambda>end_dt.
     bind (lift (asof cpi_data start_dt)) (\<lambda>cpi_start_val.
     bind (lift (asof cpi_data end_dt)) (\<lambda>cpi_end_val.
       if isna cpi_start_val \<or> isna cpi_end_val \<or> cpi_start_val = Fin 0
       then new_dict [(''error'', Str ''Insufficient CPI data for the selected period.'')]
       else real_record nominal_result cpi_start_val cpi_end_val start_dt end_dt))))"

text \<open>Its \<open>except Exception as e\<close> clause, lines 100 and 101.\<close>

definition real_except :: "exn \<Rightarrow> (exn, ref) py" where
  "real_except e =
     bind (print (''Error in real calculation: '' @ str_exn e)) (\<lambda>_.
       new_dict [(''error'', Str (''Real return calculation error: '' @ str_exn e))])"

definition calculate_real_return ::
  "pylib \<Rightarrow> ref \<Rightarrow> string \<Rightarrow> string \<Rightarrow> dataframe \<Rightarrow> (exn, ref) py" where
  "calculate_real_return L nominal_result start_date end_date cpi_data =
     bind (contains nominal_result ''error'') (\<lambda>is_error.
       if is_error then ret nominal_result
       else try_except (real_try L nominal_result start_date end_date cpi_data)
              real_except)"

section \<open>main.py\<close>

datatype calculator_input =
  CalculatorInput (in_start_date: int) (in_end_date: int) (in_initial_investment: fl)

datatype endpoint_exn = HTTPException nat string | Uncaught exn

text \<open>An exception that leaves a calculator would leave the endpoint as it is.\<close>

definition uncaught :: "(exn, 'a) py \<Rightarrow> (endpoint_exn, 'a) py" where
  "uncaught m = (\<lambda>s. case m s of (Inl e, s') \<Rightarrow> (Inl (Uncaught e), s')
                               | (Inr v, s') \<Rightarrow> (Inr v, s'))"

text \<open>\<open>{nominal_result['error']}\<close> inside an f-string.\<close>

definition format_value :: "pylib \<Rightarrow> pyval \<Rightarrow> string" where
  "format_value L v = (case v of Str s \<Rightarrow> s | Num x \<Rightarrow> float_str L x)"

text \<open>
  \<open>calculate_returns_endpoint\<close>; the two module-level caches are \<open>None\<close> until loaded.
\<close>

definition calculate_returns_endpoint ::
  "pylib \<Rightarrow> dataframe option \<Rightarrow> dataframe option \<Rightarrow> calculator_input
     \<Rightarrow> (endpoint_exn, ref) py" where
  "calculate_returns_endpoint L SP500_DATA_CACHE CPI_DATA_CACHE data =
     (if SP500_DATA_CACHE = None \<or> CPI_DATA_CACHE = None
         \<or> the SP500_DATA_CACHE = [] \<or> the CPI_DATA_CACHE = []
      then raise (HTTPException 503
             (''Historical data is not available or failed to load. ''
              @ ''Please try again later.''))
      else if in_end_date data \<le> in_start_date data
      then raise (HTTPException 400 ''Start date must be before end date.'')
      else
        let start_date_str = strftime L (in_start_date data);
            end_date_str = strftime L (in_end_date data)
        in bind (uncaught (calculate_nominal_return L start_date_str end_date_str
                   (in_initial_investment data) (the SP500_DATA_CACHE))) (\<lambda>nominal_result.
           bind (contains nominal_result ''error'') (\<lambda>nominal_failed.
             if nominal_failed
             then bind (uncaught (getitem nominal_result ''error'')) (\<lambda>msg.
                    raise (HTTPException 400
                      (''Nominal calculation error: '' @ format_value L msg)))
             else
               bind (uncaught (calculate_real_return L nominal_result start_date_str
                      end_date_str (the CPI_DATA_CACHE))) (\<lambda>final_result.
               bind (contains final_result ''error'') (\<lambda>real_failed.
                 if real_failed
                 then bind (uncaught (getitem final_result ''error'')) (\<lambda>msg.
                        raise (HTTPException 400
                          (''Real calculation error: '' @ format_value L msg)))
                 else ret final_result)))))"

section \<open>Vocabulary of the properties\<close>

text \<open>The dict a call returned, read in the state the call left; nothing if it raised.\<close>

definition result_dict :: "('e + ref) \<times> pystate \<Rightarrow> pydict option" where
  "result_dict out = (case out of (Inr r, s) \<Rightarrow> Some (heap s ! r) | (Inl e, s) \<Rightarrow> None)"

text \<open>
  The series covers the window: the negation of the condition under which line 19 prints
  its warning.
\<close>

definition covers :: "timestamp \<Rightarrow> timestamp \<Rightarrow> dataframe \<Rightarrow> bool" where
  "covers start_dt end_dt df =
     (let relevant_data = in_range start_dt end_dt df
      in \<not> (relevant_data = [] \<or> start_dt < fst (hd relevant_data)
             \<or> fst (last relevant_data) < end_dt))"

text \<open>
  The net effect of lines 71 to 95 on the dict, for the CPI values, the nominal percentage,
  the investment and the elapsed years of a run.
\<close>

definition real_fields :: "fl \<Rightarrow> fl \<Rightarrow> fl \<Rightarrow> fl \<Rightarrow> real \<Rightarrow> pydict \<Rightarrow> pydict" where
  "real_fields cpi_start_val cpi_end_val pct amount years d =
     (let inflation_rate = cpi_end_val / cpi_start_val - Fin 1;
          nominal_factor = Fin 1 + pct / Fin 100;
          real_factor = nominal_factor / (Fin 1 + inflation_rate)
      in AList.update ''calculation_notes''
           (Str (''Simplified nominal return (no dividend reinvestment). ''
                 @ ''Real return adjusted using CPI.''))
        (AList.delete ''calculation_notes''
        (AList.update ''real_cagr_pct''
           (Num (if 0 < years then round2 ((fl_pow real_factor (1 / years) - Fin 1) * Fin 100)
                 else Fin 0))
        (AList.update ''nominal_cagr_pct''
           (Num (if 0 < years
                 then round2 ((fl_pow nominal_factor (1 / years) - Fin 1) * Fin 100)
                 else Fin 0))
        (AList.update ''total_inflation_pct'' (Num (round2 (inflation_rate * Fin 100)))
        (AList.update ''real_total_return_pct''
           (Num (round2 ((real_factor - Fin 1) * Fin 100)))
        (AList.update ''final_real_value'' (Num (round2 (amount * real_factor))) d)))))))"

text \<open>
  A library for the examples: it parses the two date strings they use as pandas does
  (midnight, in nanoseconds) and rejects every other string.
\<close>

definition demo_lib :: pylib where
  "demo_lib =
     \<lparr>to_datetime = (\<lambda>s.
        if s = ''2020-01-01'' then Inr 1577836800000000000
        else if s = ''2021-01-01'' then Inr 1609459200000000000
        else Inl (ValueError (''Unknown datetime string format, unable to parse: '' @ s))),
      strftime = (\<lambda>d.
        if d = 18262 then ''2020-01-01'' else if d = 18628 then ''2021-01-01'' else []),
      float_str = (\<lambda>v. ''nan'')\<rparr>"

text \<open>The value under a key of the returned dict; nothing if the key is absent.\<close>

definition result_field :: "string \<Rightarrow> ('e + ref) \<times> pystate \<Rightarrow> pyval option" where
  "result_field k out = (case result_dict out of Some d \<Rightarrow> map_of d k | None \<Rightarrow> None)"

text \<open>A call succeeded: it returned a dict that has no \<open>error\<close> key.\<close>

definition succeeded :: "('e + ref) \<times> pystate \<Rightarrow> bool" where
  "succeeded out =
     (case result_dict out of Some d \<Rightarrow> ''error'' \<notin> set (map fst d) | None \<Rightarrow> False)"

text \<open>What the \<open>except\<close> clause of \<open>calculate_real_return\<close> leaves for an exception.\<close>

definition real_handler :: "exn \<Rightarrow> pystate \<Rightarrow> (exn + ref) \<times> pystate" where
  "real_handler e s =
     (Inr (length (heap s)),
      s\<lparr>heap := heap s @
          [[(''error'', Str (''Real return calculation error: '' @ str_exn e))]],
        stdout := stdout s @ [''Error in real calculation: '' @ str_exn e]\<rparr>)"

text \<open>Series for the examples: prices at both ends of 2020, prices inside 2020 only, CPI.\<close>

definition demo_prices :: dataframe where
  "demo_prices = [(1577836800000000000, Fin 100), (1609459200000000000, Fin 200)]"


definition demo_cpi :: dataframe where
  "demo_cpi = [(1577836800000000000, Fin 100), (1606780800000000000, Fin 125)]"

definition flat_cpi :: dataframe where
  "flat_cpi = [(1577836800000000000, Fin 50)]"

text \<open>The record \<open>calculate_nominal_return\<close> builds for 1000 invested over \<open>demo_prices\<close>.\<close>

definition demo_nominal :: pydict where
  "demo_nominal =
     [(''start_date'', Str ''2020-01-01''),
      (''end_date'', Str ''2021-01-01''),
      (''initial_investment'', Num (Fin 1000)),
      (''final_nominal_value'', Num (Fin 2000)),
      (''nominal_total_return_pct'', Num (Fin 100)),
      (''calculation_notes'',
         Str ''Simplified calculation without actual dividend reinvestment.'')]"

section \<open>Running the statements\<close>

lemma bind_lift_Inr [simp]: "bind (lift (Inr v)) f s = f v s"
  by (simp add: bind_def lift_def)

lemma bind_lift_Inl [simp]: "bind (lift (Inl e)) f s = (Inl e, s)"
  by (simp add: bind_def lift_def)

lemma bind_print [simp]: "bind (print l) f s = f () (s\<lparr>stdout := stdout s @ [l]\<rparr>)"
  by (simp add: bind_def print_def)

lemma bind_setitem [simp]:
  "bind (setitem r k v) f s =
     f () (s\<lparr>heap := (heap s)[r := AList.update k v (heap s ! r)]\<rparr>)"
  by (simp add: bind_def setitem_def)

lemma bind_pop [simp]:
  "bind (pop r k) f s = f () (s\<lparr>heap := (heap s)[r := AList.delete k (heap s ! r)]\<rparr>)"
  by (simp add: bind_def pop_def)

lemma bind_contains [simp]:
  "bind (contains r k) f s = f (k \<in> set (map fst (heap s ! r))) s"
  by (simp add: bind_def contains_def)

lemma bind_getitem_Some [simp]:
  "map_of (heap s ! r) k = Some v \<Longrightarrow> bind (getitem r k) f s = f v s"
  by (simp add: bind_def getitem_def)

lemma bind_getitem_None [simp]:
  "map_of (heap s ! r) k = None \<Longrightarrow> bind (getitem r k) f s = (Inl (KeyError k), s)"
  by (simp add: bind_def getitem_def)

lemma setitem_apply [simp]:
  "setitem r k v s = (Inr (), s\<lparr>heap := (heap s)[r := AList.update k v (heap s ! r)]\<rparr>)"
  by (simp add: setitem_def)

lemma new_dict_apply [simp]:
  "new_dict d s = (Inr (length (heap s)), s\<lparr>heap := heap s @ [d]\<rparr>)"
  by (simp add: new_dict_def)

lemma ret_apply [simp]: "ret v s = (Inr v, s)"
  by (simp add: ret_def)

lemma raise_apply [simp]: "raise e s = (Inl e, s)"
  by (simp add: raise_def)

lemma try_except_Inr: "body s = (Inr v, s') \<Longrightarrow> try_except body handler s = (Inr v, s')"
  by (simp add: try_except_def)

lemma try_except_Inl: "body s = (Inl e, s') \<Longrightarrow> try_except body handler s = handler e s'"
  by (simp add: try_except_def)

section \<open>Arithmetic facts\<close>

lemma fl_add_sub_one [simp]: "Fin 1 + x - Fin 1 = x"
  by (cases x) (simp_all add: plus_fl_def minus_fl_def)

lemma fl_zero_inflation:
  "((Fin 1 + p / Fin 100) / (Fin 1 + Fin 0) - Fin 1) * Fin 100 = p"
  by (cases p) (simp_all add: plus_fl_def minus_fl_def times_fl_def divide_fl_def)

section \<open>The nominal calculation\<close>

lemma nominal_record_cons:
  "relevant_data \<noteq> [] \<Longrightarrow>
   nominal_record start_date end_date amount start_dt end_dt relevant_data s =
     (Inr (length (heap s)),
      s\<lparr>heap := heap s @
        [[(''start_date'', Str start_date),
          (''end_date'', Str end_date),
          (''initial_investment'', Num amount),
          (''final_nominal_value'',
             Num (round2 (amount * (Fin 1
                + (snd (last relevant_data) / snd (hd relevant_data) - Fin 1))))),
          (''nominal_total_return_pct'',
             Num (round2 ((snd (last relevant_data) / snd (hd relevant_data) - Fin 1)
                * Fin 100))),
          (''calculation_notes'',
             Str ''Simplified calculation without actual dividend reinvestment.'')]]\<rparr>)"
  by (cases relevant_data)
     (simp_all add: nominal_record_def iloc_first_def iloc_last_def Let_def)

lemma nominal_parsed:
  assumes "to_datetime L start_date = Inr start_dt" and "to_datetime L end_date = Inr end_dt"
  shows "calculate_nominal_return L start_date end_date amount df s =
     (Inr (length (heap s)),
      s\<lparr>heap := heap s @
          [if in_range start_dt end_dt df = []
           then [(''error'', Str ''Insufficient S&P 500 data for the selected period.'')]
           else [(''start_date'', Str start_date),
                 (''end_date'', Str end_date),
                 (''initial_investment'', Num amount),
                 (''final_nominal_value'',
                    Num (round2 (amount * (Fin 1 + (snd (last (in_range start_dt end_dt df))
                       / snd (hd (in_range start_dt end_dt df)) - Fin 1))))),
                 (''nominal_total_return_pct'',
                    Num (round2 ((snd (last (in_range start_dt end_dt df))
                       / snd (hd (in_range start_dt end_dt df)) - Fin 1) * Fin 100))),
                 (''calculation_notes'',
                    Str ''Simplified calculation without actual dividend reinvestment.'')]],
        stdout := stdout s @
          (if covers start_dt end_dt df then []
           else [''Warning: Data missing for range '' @ start_date @ '' to '' @ end_date])\<rparr>)"
  using assms
  by (simp add: calculate_nominal_return_def nominal_try_def try_except_def
        nominal_record_cons covers_def Let_def)

lemma nominal_unparsed:
  assumes "to_datetime L start_date = Inl e
           \<or> (\<exists>t. to_datetime L start_date = Inr t) \<and> to_datetime L end_date = Inl e"
  shows "calculate_nominal_return L start_date end_date amount df s =
     (Inr (length (heap s)),
      s\<lparr>heap := heap s @ [[(''error'', Str (''Calculation error: '' @ str_exn e))]],
        stdout := stdout s @ [''Error in nominal calculation: '' @ str_exn e]\<rparr>)"
  using assms
  by (auto simp add: calculate_nominal_return_def nominal_try_def nominal_except_def
        try_except_def)

text \<open>
  Whatever the state, the call allocates one dict, and the dict and the printed lines depend
  on the arguments alone.
\<close>

lemma nominal_outcome:
  "\<exists>d lines. (map fst d = [''error'']
        \<or> map fst d = [''start_date'', ''end_date'', ''initial_investment'',
             ''final_nominal_value'', ''nominal_total_return_pct'', ''calculation_notes''])
     \<and> (\<forall>s. calculate_nominal_return L start_date end_date amount df s =
           (Inr (length (heap s)), s\<lparr>heap := heap s @ [d], stdout := stdout s @ lines\<rparr>))"
proof -
  have raised: ?thesis
    if "\<forall>s. calculate_nominal_return L start_date end_date amount df s =
       (Inr (length (heap s)),
        s\<lparr>heap := heap s @ [[(''error'', Str (''Calculation error: '' @ str_exn e))]],
          stdout := stdout s @ [''Error in nominal calculation: '' @ str_exn e]\<rparr>)" for e
    using that
    by (intro exI [of _ "[(''error'', Str (''Calculation error: '' @ str_exn e))]"]
          exI [of _ "[''Error in nominal calculation: '' @ str_exn e]"]) simp
  show ?thesis
  proof (cases "to_datetime L start_date")
    case (Inl e)
    then show ?thesis by (intro raised [of e]) (simp add: nominal_unparsed)
  next
    case sd: (Inr start_dt)
    show ?thesis
    proof (cases "to_datetime L end_date")
      case (Inl e)
      with sd show ?thesis by (intro raised [of e]) (simp add: nominal_unparsed)
    next
      case ed: (Inr end_dt)
      show ?thesis
      proof (cases "in_range start_dt end_dt df = []")
        case True
        then show ?thesis
          by (intro exI [of _ "[(''error'',
                Str ''Insufficient S&P 500 data for the selected period.'')]"]
              exI [of _ "if covers start_dt end_dt df then []
                else [''Warning: Data missing for range '' @ start_date @ '' to ''
                      @ end_date]"])
             (simp add: nominal_parsed [OF sd ed])
      next
        case False
        then show ?thesis
          by (intro exI [of _ "[(''start_date'', Str start_date),
                 (''end_date'', Str end_date),
                 (''initial_investment'', Num amount),
                 (''final_nominal_value'',
                    Num (round2 (amount * (Fin 1 + (snd (last (in_range start_dt end_dt df))
                       / snd (hd (in_range start_dt end_dt df)) - Fin 1))))),
                 (''nominal_total_return_pct'',
                    Num (round2 ((snd (last (in_range start_dt end_dt df))
                       / snd (hd (in_range start_dt end_dt df)) - Fin 1) * Fin 100))),
                 (''calculation_notes'',
                    Str ''Simplified calculation without actual dividend reinvestment.'')]"]
              exI [of _ "if covers start_dt end_dt df then []
                else [''Warning: Data missing for range '' @ start_date @ '' to ''
                      @ end_date]"])
             (simp add: nominal_parsed [OF sd ed])
      qed
    qed
  qed
qed

section \<open>The real-return calculation\<close>

lemma cagr_fields_apply:
  assumes "r < length (heap s)"
  shows "cagr_fields r nf rf start_dt end_dt s =
     (let years = real_of_int (days (end_dt - start_dt)) / 365.25 in
      (Inr (),
       s\<lparr>heap := (heap s)[r :=
         AList.update ''real_cagr_pct''
           (Num (if 0 < years then round2 ((fl_pow rf (1 / years) - Fin 1) * Fin 100)
                 else Fin 0))
           (AList.update ''nominal_cagr_pct''
              (Num (if 0 < years then round2 ((fl_pow nf (1 / years) - Fin 1) * Fin 100)
                    else Fin 0))
              (heap s ! r))]\<rparr>))"
  using assms
  by (simp add: cagr_fields_def float_truediv_def Let_def)

text \<open>The division \<open>1/years\<close> is reached with \<open>years > 0\<close> only: the step never raises.\<close>

lemma cagr_fields_returns: "fst (cagr_fields r nf rf start_dt end_dt s) = Inr ()"
  by (simp add: cagr_fields_def float_truediv_def Let_def)

lemma real_record_apply:
  assumes "r < length (heap s)"
    and "map_of (heap s ! r) ''nominal_total_return_pct'' = Some (Num pct)"
    and "map_of (heap s ! r) ''initial_investment'' = Some (Num amount)"
  shows "real_record r c_s c_e start_dt end_dt s =
     (Inr r, s\<lparr>heap := (heap s)[r := real_fields c_s c_e pct amount
        (real_of_int (days (end_dt - start_dt)) / 365.25) (heap s ! r)]\<rparr>)"
  using assms
  by (simp add: real_record_def truediv_def mul_def Let_def real_fields_def
        bind_def [of "cagr_fields _ _ _ _ _"] cagr_fields_apply)

text \<open>
  A dict that lacks one of the two numbers makes line 73 or line 77 raise, before any
  assignment: the state is the one the call started from.
\<close>

lemma real_record_raises:
  assumes "\<not> (\<exists>pct amount. map_of d ''nominal_total_return_pct'' = Some (Num pct)
              \<and> map_of d ''initial_investment'' = Some (Num amount))"
  shows "\<exists>e. \<forall>r s. heap s ! r = d \<longrightarrow>
            real_record r c_s c_e start_dt end_dt s = (Inl e, s)"
proof (cases "map_of d ''nominal_total_return_pct''")
  case None
  then show ?thesis by (simp add: real_record_def Let_def)
next
  case (Some v)
  show ?thesis
  proof (cases v)
    case (Str x)
    with Some show ?thesis by (simp add: real_record_def Let_def truediv_def)
  next
    case (Num pct)
    show ?thesis
    proof (cases "map_of d ''initial_investment''")
      case None
      with \<open>map_of d ''nominal_total_return_pct'' = Some v\<close> Num show ?thesis
        by (simp add: real_record_def Let_def truediv_def)
    next
      case (Some w)
      with assms \<open>map_of d ''nominal_total_return_pct'' = Some v\<close> Num
      obtain x where "w = Str x" by (cases w) auto
      with Some \<open>map_of d ''nominal_total_return_pct'' = Some v\<close> Num
      show ?thesis by (simp add: real_record_def Let_def truediv_def mul_def)
    qed
  qed
qed

lemma asof_raises_same: "asof df w = Inl e \<Longrightarrow> asof df w' = Inl e"
  by (auto simp add: asof_def Let_def split: if_splits list.splits prod.splits)

lemma real_handler_apply: "real_except e s = real_handler e s"
  by (simp add: real_except_def real_handler_def)

lemma calculate_real_return_success:
  assumes "r < length (heap s)"
    and "''error'' \<notin> set (map fst (heap s ! r))"
    and "to_datetime L start_date = Inr start_dt" and "to_datetime L end_date = Inr end_dt"
    and "asof cpi_data start_dt = Inr c_s" and "asof cpi_data end_dt = Inr c_e"
    and "\<not> (c_s = NaN \<or> c_e = NaN \<or> c_s = Fin 0)"
    and "map_of (heap s ! r) ''nominal_total_return_pct'' = Some (Num pct)"
    and "map_of (heap s ! r) ''initial_investment'' = Some (Num amount)"
  shows "calculate_real_return L r start_date end_date cpi_data s =
     (Inr r, s\<lparr>heap := (heap s)[r := real_fields c_s c_e pct amount
        (real_of_int (days (end_dt - start_dt)) / 365.25) (heap s ! r)]\<rparr>)"
  using assms(2-7)
  by (simp add: calculate_real_return_def real_try_def try_except_def isna_def
        real_record_apply [OF assms(1) assms(8) assms(9)])

lemma calculate_real_return_insufficient:
  assumes "''error'' \<notin> set (map fst (heap s ! r))"
    and "to_datetime L start_date = Inr start_dt" and "to_datetime L end_date = Inr end_dt"
    and "asof cpi_data start_dt = Inr c_s" and "asof cpi_data end_dt = Inr c_e"
    and "c_s = NaN \<or> c_e = NaN \<or> c_s = Fin 0"
  shows "calculate_real_return L r start_date end_date cpi_data s =
     (Inr (length (heap s)),
      s\<lparr>heap := heap s @
        [[(''error'', Str ''Insufficient CPI data for the selected period.'')]]\<rparr>)"
  using assms
  by (simp add: calculate_real_return_def real_try_def try_except_def isna_def)

lemma calculate_real_return_raised:
  assumes "''error'' \<notin> set (map fst (heap s ! r))"
    and "real_try L r start_date end_date cpi_data s = (Inl e, s)"
  shows "calculate_real_return L r start_date end_date cpi_data s = real_handler e s"
  using assms
  by (simp add: calculate_real_return_def try_except_def real_handler_apply)

text \<open>
  The three ways a call on a dict without \<open>error\<close> key ends. Which one, and with what
  values, depends on the arguments and on the contents of the dict, not on the rest of the
  state.
\<close>

lemma real_cases:
  assumes "''error'' \<notin> set (map fst d)"
  shows "(\<exists>e. (\<forall>r s. r < length (heap s) \<and> heap s ! r = d \<longrightarrow>
              calculate_real_return L r start_date end_date cpi_data s = real_handler e s)
            \<and> \<not> (\<exists>start_dt end_dt c_s c_e. to_datetime L start_date = Inr start_dt
                   \<and> to_datetime L end_date = Inr end_dt
                   \<and> asof cpi_data start_dt = Inr c_s \<and> asof cpi_data end_dt = Inr c_e
                   \<and> (c_s = NaN \<or> c_e = NaN \<or> c_s = Fin 0)))
       \<or> (\<exists>start_dt end_dt c_s c_e. to_datetime L start_date = Inr start_dt
            \<and> to_datetime L end_date = Inr end_dt
            \<and> asof cpi_data start_dt = Inr c_s \<and> asof cpi_data end_dt = Inr c_e
            \<and> (c_s = NaN \<or> c_e = NaN \<or> c_s = Fin 0)
            \<and> (\<forall>r s. r < length (heap s) \<and> heap s ! r = d \<longrightarrow>
                 calculate_real_return L r start_date end_date cpi_data s =
                   (Inr (length (heap s)),
                    s\<lparr>heap := heap s @
                      [[(''error'',
                         Str ''Insufficient CPI data for the selected period.'')]]\<rparr>)))
       \<or> (\<exists>start_dt end_dt c_s c_e pct amount. to_datetime L start_date = Inr start_dt
            \<and> to_datetime L end_date = Inr end_dt
            \<and> asof cpi_data start_dt = Inr c_s \<and> asof cpi_data end_dt = Inr c_e
            \<and> \<not> (c_s = NaN \<or> c_e = NaN \<or> c_s = Fin 0)
            \<and> map_of d ''nominal_total_return_pct'' = Some (Num pct)
            \<and> map_of d ''initial_investment'' = Some (Num amount)
            \<and> (\<forall>r s. r < length (heap s) \<and> heap s ! r = d \<longrightarrow>
                 calculate_real_return L r start_date end_date cpi_data s =
                   (Inr r, s\<lparr>heap := (heap s)[r := real_fields c_s c_e pct amount
                      (real_of_int (days (end_dt - start_dt)) / 365.25) d]\<rparr>)))"
proof (cases "to_datetime L start_date")
  case (Inl e)
  with assms
  have "\<forall>r s. r < length (heap s) \<and> heap s ! r = d \<longrightarrow>
          calculate_real_return L r start_date end_date cpi_data s = real_handler e s"
    by (simp add: calculate_real_return_raised real_try_def)
  with Inl show ?thesis by auto
next
  case sd: (Inr start_dt)
  show ?thesis
  proof (cases "to_datetime L end_date")
    case (Inl e)
    with assms sd
    have "\<forall>r s. r < length (heap s) \<and> heap s ! r = d \<longrightarrow>
            calculate_real_return L r start_date end_date cpi_data s = real_handler e s"
      by (simp add: calculate_real_return_raised real_try_def)
    with Inl show ?thesis by auto
  next
    case ed: (Inr end_dt)
    show ?thesis
    proof (cases "asof cpi_data start_dt")
      case (Inl e)
      with assms sd ed
      have "\<forall>r s. r < length (heap s) \<and> heap s ! r = d \<longrightarrow>
              calculate_real_return L r start_date end_date cpi_data s = real_handler e s"
        by (simp add: calculate_real_return_raised real_try_def)
      with Inl sd show ?thesis by auto
    next
      case cs: (Inr c_s)
      show ?thesis
      proof (cases "asof cpi_data end_dt")
        case (Inl e)
        with asof_raises_same [OF Inl, of start_dt] cs show ?thesis by simp
      next
        case ce: (Inr c_e)
        show ?thesis
        proof (cases "c_s = NaN \<or> c_e = NaN \<or> c_s = Fin 0")
          case True
          with assms sd ed cs ce
          have "\<forall>r s. r < length (heap s) \<and> heap s ! r = d \<longrightarrow>
                 calculate_real_return L r start_date end_date cpi_data s =
                   (Inr (length (heap s)),
                    s\<lparr>heap := heap s @
                      [[(''error'',
                         Str ''Insufficient CPI data for the selected period.'')]]\<rparr>)"
            by (simp add: calculate_real_return_insufficient)
          with True sd ed cs ce show ?thesis by auto
        next
          case valid: False
          show ?thesis
          proof (cases "\<exists>pct amount.
              map_of d ''nominal_total_return_pct'' = Some (Num pct)
              \<and> map_of d ''initial_investment'' = Some (Num amount)")
            case True
            then obtain pct amount where fields:
              "map_of d ''nominal_total_return_pct'' = Some (Num pct)"
              "map_of d ''initial_investment'' = Some (Num amount)" by blast
            with assms sd ed cs ce valid
            have "\<forall>r s. r < length (heap s) \<and> heap s ! r = d \<longrightarrow>
                 calculate_real_return L r start_date end_date cpi_data s =
                   (Inr r, s\<lparr>heap := (heap s)[r := real_fields c_s c_e pct amount
                      (real_of_int (days (end_dt - start_dt)) / 365.25) d]\<rparr>)"
              by (auto simp add: calculate_real_return_success)
            with sd ed cs ce valid fields show ?thesis by auto
          next
            case False
            from real_record_raises [OF False, of c_s c_e start_dt end_dt]
            obtain e where
              "\<forall>r s. heap s ! r = d \<longrightarrow> real_record r c_s c_e start_dt end_dt s = (Inl e, s)"
              by blast
            with assms sd ed cs ce valid
            have "\<forall>r s. r < length (heap s) \<and> heap s ! r = d \<longrightarrow>
                calculate_real_return L r start_date end_date cpi_data s = real_handler e s"
              by (simp add: calculate_real_return_raised real_try_def isna_def)
            with sd ed cs ce valid show ?thesis by auto
          qed
        qed
      qed
    qed
  qed
qed

section \<open>The as-of lookup\<close>

lemma asof_scan_NaN_iff: "asof_scan vals n = NaN \<longleftrightarrow> (\<forall>i \<le> n. vals ! i = NaN)"
  by (induction n) (auto simp add: isna_def le_Suc_eq)

lemma searchsorted_right_before:
  "i < searchsorted_right idx w \<Longrightarrow> idx ! i \<le> w"
  unfolding searchsorted_right_def
  using nth_mem [of i "takeWhile (\<lambda>t. t \<le> w) idx"] takeWhile_nth [of i "\<lambda>t. t \<le> w" idx]
  by (auto dest: set_takeWhileD)

lemma searchsorted_right_after:
  assumes "sorted idx" and "searchsorted_right idx w \<le> i" and "i < length idx"
  shows "w < idx ! i"
proof -
  let ?k = "searchsorted_right idx w"
  from assms(2,3) have k: "?k < length idx" by simp
  then have "\<not> idx ! ?k \<le> w"
    unfolding searchsorted_right_def by (rule nth_length_takeWhile)
  moreover from assms have "idx ! ?k \<le> idx ! i"
    by (simp add: sorted_nth_mono)
  ultimately show ?thesis by simp
qed

text \<open>On a sorted series that is not empty the lookup raises nothing.\<close>

lemma asof_sorted:
  assumes "sorted (map fst df)" and "df \<noteq> []"
  shows "\<exists>v. asof df w = Inr v"
  using assms by (cases df) (auto simp add: asof_def Let_def)

text \<open>
  The lookup is missing exactly when no observation at or before the date has a value: the
  nearest such observation is taken, however old it is, and NaN values are skipped.
\<close>

lemma asof_missing_iff:
  assumes "sorted (map fst df)" and "df \<noteq> []"
  shows "asof df w = Inr NaN \<longleftrightarrow> (\<forall>i < length df. fst (df ! i) \<le> w \<longrightarrow> snd (df ! i) = NaN)"
proof -
  let ?idx = "map fst df"
  let ?k = "searchsorted_right ?idx w"
  have klen: "?k \<le> length df"
    unfolding searchsorted_right_def using length_takeWhile_le [of _ ?idx] by simp
  have rhs: "(\<forall>i < length df. fst (df ! i) \<le> w \<longrightarrow> snd (df ! i) = NaN)
      \<longleftrightarrow> (\<forall>i < ?k. snd (df ! i) = NaN)"
  proof
    assume a: "\<forall>i < length df. fst (df ! i) \<le> w \<longrightarrow> snd (df ! i) = NaN"
    show "\<forall>i < ?k. snd (df ! i) = NaN"
    proof (intro allI impI)
      fix i assume i: "i < ?k"
      with klen have "i < length df" by simp
      moreover from searchsorted_right_before [OF i] this have "fst (df ! i) \<le> w" by simp
      ultimately show "snd (df ! i) = NaN" using a by blast
    qed
  next
    assume a: "\<forall>i < ?k. snd (df ! i) = NaN"
    show "\<forall>i < length df. fst (df ! i) \<le> w \<longrightarrow> snd (df ! i) = NaN"
    proof (intro allI impI)
      fix i assume i: "i < length df" and le: "fst (df ! i) \<le> w"
      have "i < ?k"
      proof (rule ccontr)
        assume "\<not> i < ?k"
        with searchsorted_right_after [OF assms(1), of w i] i have "w < ?idx ! i" by simp
        with i le show False by simp
      qed
      with a show "snd (df ! i) = NaN" by blast
    qed
  qed
  obtain start v0 rest where df: "df = (start, v0) # rest"
    using assms(2) by (cases df) auto
  show ?thesis
  proof (cases "w < start")
    case True
    then have "?k = 0" by (simp add: searchsorted_right_def df)
    moreover from True assms(1) have "asof df w = Inr NaN" by (simp add: asof_def df)
    ultimately show ?thesis using rhs by simp
  next
    case False
    then have pos: "0 < ?k" by (simp add: searchsorted_right_def df)
    from False assms(1) pos
    have "asof df w = Inr (asof_scan (map snd df) (?k - 1))"
      by (simp add: asof_def df Let_def)
    moreover have "asof_scan (map snd df) (?k - 1) = NaN \<longleftrightarrow> (\<forall>i < ?k. snd (df ! i) = NaN)"
    proof -
      have "(\<forall>i \<le> ?k - 1. map snd df ! i = NaN) \<longleftrightarrow> (\<forall>i < ?k. snd (df ! i) = NaN)"
      proof -
        have "\<And>i. i < ?k \<Longrightarrow> map snd df ! i = snd (df ! i)"
          using klen by simp
        moreover have "\<And>i. i \<le> ?k - 1 \<longleftrightarrow> i < ?k" using pos by auto
        ultimately show ?thesis by auto
      qed
      then show ?thesis by (simp only: asof_scan_NaN_iff)
    qed
    ultimately show ?thesis using rhs by simp
  qed
qed

section \<open>Properties of the nominal calculation\<close>

lemma demo_start: "to_datetime demo_lib ''2020-01-01'' = Inr 1577836800000000000"
  by (simp add: demo_lib_def)

lemma demo_end: "to_datetime demo_lib ''2021-01-01'' = Inr 1609459200000000000"
  by (simp add: demo_lib_def)





section \<open>Errors of the first stage\<close>

text \<open>
  Claim C6. Given a dict that has an \<open>error\<close> key, \<open>calculate_real_return\<close> returns the
  reference it was given and leaves the whole state as it was: it allocates no dict, assigns
  to none and prints nothing, whatever the dates and the CPI series are. So the error dict is
  returned unchanged, and no field of the second stage is added to it.
\<close>

theorem real_passes_error_through:
  assumes "''error'' \<in> set (map fst (heap s ! r))"
  shows "calculate_real_return L r start_date end_date cpi_data s = (Inr r, s)"
  using assms by (simp add: calculate_real_return_def)

text \<open>Claim C6 at the error record of the first stage.\<close>

theorem real_passes_error_through_witness:
  "''error'' \<in> set (map fst (heap
      \<lparr>heap = [[(''error'', Str ''Insufficient S&P 500 data for the selected period.'')]],
       stdout = []\<rparr> ! 0))
   \<and> calculate_real_return demo_lib 0 ''2020-01-01'' ''2021-01-01'' demo_cpi
       \<lparr>heap = [[(''error'', Str ''Insufficient S&P 500 data for the selected period.'')]],
        stdout = []\<rparr> =
     (Inr 0,
      \<lparr>heap = [[(''error'', Str ''Insufficient S&P 500 data for the selected period.'')]],
       stdout = []\<rparr>)"
proof -
  have h: "''error'' \<in> set (map fst (heap
      \<lparr>heap = [[(''error'', Str ''Insufficient S&P 500 data for the selected period.'')]],
       stdout = []\<rparr> ! 0))"
    by simp
  from real_passes_error_through [OF h, of demo_lib "''2020-01-01''" "''2021-01-01''" demo_cpi]
  show ?thesis using h by blast
qed

section \<open>The endpoint\<close>

text \<open>
  Claim C8. With both caches loaded and not empty, a request whose start date is equal to or
  after its end date makes \<open>calculate_returns_endpoint\<close> raise the 400 error
  \<open>Start date must be before end date.\<close> in the state the request found: no dict was
  allocated and nothing was printed, and every call of \<open>calculate_nominal_return\<close>
  allocates a dict (\<open>nominal_outcome\<close>), so no calculator ran; the outcome is the same for
  all contents of the two series.
\<close>

theorem endpoint_invalid_range:
  assumes "SP500_DATA_CACHE = Some sp500" and "sp500 \<noteq> []"
    and "CPI_DATA_CACHE = Some cpi" and "cpi \<noteq> []"
    and "in_end_date data \<le> in_start_date data"
  shows "calculate_returns_endpoint L SP500_DATA_CACHE CPI_DATA_CACHE data s =
     (Inl (HTTPException 400 ''Start date must be before end date.''), s)"
  using assms by (simp add: calculate_returns_endpoint_def)

text \<open>Claim C8 at a request whose two dates are 2020-01-01.\<close>

theorem endpoint_invalid_range_witness:
  "demo_prices \<noteq> [] \<and> demo_cpi \<noteq> []
   \<and> in_end_date (CalculatorInput 18262 18262 (Fin 1000))
       \<le> in_start_date (CalculatorInput 18262 18262 (Fin 1000))
   \<and> calculate_returns_endpoint demo_lib (Some demo_prices) (Some demo_cpi)
       (CalculatorInput 18262 18262 (Fin 1000)) \<lparr>heap = [], stdout = []\<rparr> =
     (Inl (HTTPException 400 ''Start date must be before end date.''),
      \<lparr>heap = [], stdout = []\<rparr>)"
proof -
  have p: "demo_prices \<noteq> []" and c: "demo_cpi \<noteq> []"
    by (simp_all add: demo_prices_def demo_cpi_def)
  have d: "in_end_date (CalculatorInput 18262 18262 (Fin 1000))
       \<le> in_start_date (CalculatorInput 18262 18262 (Fin 1000))"
    by simp
  from endpoint_invalid_range [OF refl p refl c d, of demo_lib "\<lparr>heap = [], stdout = []\<rparr>"]
  show ?thesis using p c d by blast
qed

section \<open>Outcomes of the real-return calculation\<close>

lemma map_of_real_fields:
  "map_of (real_fields c_s c_e pct amount years d) =
     (map_of d)
       (''final_real_value'' \<mapsto>
          Num (round2 (amount * ((Fin 1 + pct / Fin 100) / (Fin 1 + (c_e / c_s - Fin 1))))),
        ''real_total_return_pct'' \<mapsto>
          Num (round2 (((Fin 1 + pct / Fin 100) / (Fin 1 + (c_e / c_s - Fin 1)) - Fin 1)
                 * Fin 100)),
        ''total_inflation_pct'' \<mapsto> Num (round2 ((c_e / c_s - Fin 1) * Fin 100)),
        ''nominal_cagr_pct'' \<mapsto>
          Num (if 0 < years
               then round2 ((fl_pow (Fin 1 + pct / Fin 100) (1 / years) - Fin 1) * Fin 100)
               else Fin 0),
        ''real_cagr_pct'' \<mapsto>
          Num (if 0 < years
               then round2 ((fl_pow ((Fin 1 + pct / Fin 100) / (Fin 1 + (c_e / c_s - Fin 1)))
                       (1 / years) - Fin 1) * Fin 100)
               else Fin 0),
        ''calculation_notes'' \<mapsto>
          Str (''Simplified nominal return (no dividend reinvestment). ''
               @ ''Real return adjusted using CPI.''))"
  by (simp add: real_fields_def Let_def update_conv' delete_conv')

lemma error_key_iff: "''error'' \<in> set (map fst d) \<longleftrightarrow> map_of d ''error'' \<noteq> None"
  by (simp add: map_of_eq_None_iff)

lemma real_fields_no_error:
  "''error'' \<notin> set (map fst d)
   \<Longrightarrow> ''error'' \<notin> set (map fst (real_fields c_s c_e pct amount years d))"
  unfolding error_key_iff by (simp add: map_of_real_fields)

lemma real_handler_fails: "\<not> succeeded (real_handler e s)"
  by (simp add: succeeded_def result_dict_def real_handler_def)

text \<open>A call that succeeded went through every check, and assigned to the dict it was given.\<close>

lemma real_succeeded_cases:
  assumes "r < length (heap s)"
    and "succeeded (calculate_real_return L r start_date end_date cpi_data s)"
  shows "\<exists>start_dt end_dt c_s c_e pct amount.
       to_datetime L start_date = Inr start_dt \<and> to_datetime L end_date = Inr end_dt
       \<and> asof cpi_data start_dt = Inr c_s \<and> asof cpi_data end_dt = Inr c_e
       \<and> \<not> (c_s = NaN \<or> c_e = NaN \<or> c_s = Fin 0)
       \<and> map_of (heap s ! r) ''nominal_total_return_pct'' = Some (Num pct)
       \<and> map_of (heap s ! r) ''initial_investment'' = Some (Num amount)
       \<and> calculate_real_return L r start_date end_date cpi_data s =
           (Inr r, s\<lparr>heap := (heap s)[r := real_fields c_s c_e pct amount
              (real_of_int (days (end_dt - start_dt)) / 365.25) (heap s ! r)]\<rparr>)"
proof (cases "''error'' \<in> set (map fst (heap s ! r))")
  case True
  then have "calculate_real_return L r start_date end_date cpi_data s = (Inr r, s)"
    by (simp add: calculate_real_return_def)
  with assms(2) True show ?thesis by (simp add: succeeded_def result_dict_def)
next
  case False
  from real_cases [OF False, of L start_date end_date cpi_data]
  consider
    (raised) e where
      "calculate_real_return L r start_date end_date cpi_data s = real_handler e s"
  | (insufficient)
      "calculate_real_return L r start_date end_date cpi_data s =
         (Inr (length (heap s)),
          s\<lparr>heap := heap s @
            [[(''error'', Str ''Insufficient CPI data for the selected period.'')]]\<rparr>)"
  | (computed) start_dt end_dt c_s c_e pct amount where
      "to_datetime L start_date = Inr start_dt" "to_datetime L end_date = Inr end_dt"
      "asof cpi_data start_dt = Inr c_s" "asof cpi_data end_dt = Inr c_e"
      "\<not> (c_s = NaN \<or> c_e = NaN \<or> c_s = Fin 0)"
      "map_of (heap s ! r) ''nominal_total_return_pct'' = Some (Num pct)"
      "map_of (heap s ! r) ''initial_investment'' = Some (Num amount)"
      "calculate_real_return L r start_date end_date cpi_data s =
         (Inr r, s\<lparr>heap := (heap s)[r := real_fields c_s c_e pct amount
            (real_of_int (days (end_dt - start_dt)) / 365.25) (heap s ! r)]\<rparr>)"
    using assms(1) by blast
  then show ?thesis
  proof cases
    case raised
    with assms(2) real_handler_fails show ?thesis by simp
  next
    case insufficient
    with assms(2) show ?thesis by (simp add: succeeded_def result_dict_def)
  next
    case computed
    then show ?thesis by blast
  qed
qed

text \<open>The fields of the dict a successful call returns.\<close>

lemma real_succeeded_field:
  assumes "r < length (heap s)"
    and "succeeded (calculate_real_return L r start_date end_date cpi_data s)"
    and "to_datetime L start_date = Inr start_dt" and "to_datetime L end_date = Inr end_dt"
    and "asof cpi_data start_dt = Inr c_s" and "asof cpi_data end_dt = Inr c_e"
    and "map_of (heap s ! r) ''nominal_total_return_pct'' = Some (Num pct)"
  shows "\<exists>amount. result_field k (calculate_real_return L r start_date end_date cpi_data s) =
     map_of (real_fields c_s c_e pct amount
       (real_of_int (days (end_dt - start_dt)) / 365.25) (heap s ! r)) k"
proof -
  from real_succeeded_cases [OF assms(1,2)] assms(3-7)
  obtain amount where
    "calculate_real_return L r start_date end_date cpi_data s =
       (Inr r, s\<lparr>heap := (heap s)[r := real_fields c_s c_e pct amount
          (real_of_int (days (end_dt - start_dt)) / 365.25) (heap s ! r)]\<rparr>)"
    by auto
  with assms(1) show ?thesis by (auto simp add: result_field_def result_dict_def)
qed

section \<open>Properties of the real-return calculation\<close>

lemma demo_valid: "0 < length (heap \<lparr>heap = [demo_nominal], stdout = []\<rparr>)"
  by simp

lemma demo_pct:
  "map_of (heap \<lparr>heap = [demo_nominal], stdout = []\<rparr> ! 0) ''nominal_total_return_pct''
     = Some (Num (Fin 100))"
  by (simp add: demo_nominal_def)

lemma demo_amount:
  "map_of (heap \<lparr>heap = [demo_nominal], stdout = []\<rparr> ! 0) ''initial_investment''
     = Some (Num (Fin 1000))"
  by (simp add: demo_nominal_def)

lemma demo_no_error:
  "''error'' \<notin> set (map fst (heap \<lparr>heap = [demo_nominal], stdout = []\<rparr> ! 0))"
  by (simp add: demo_nominal_def)

lemma demo_cpi_start: "asof demo_cpi 1577836800000000000 = Inr (Fin 100)"
  by (simp add: asof_def demo_cpi_def searchsorted_right_def isna_def)

lemma demo_cpi_end: "asof demo_cpi 1609459200000000000 = Inr (Fin 125)"
  by (simp add: asof_def demo_cpi_def searchsorted_right_def isna_def)

lemma flat_cpi_start: "asof flat_cpi 1577836800000000000 = Inr (Fin 50)"
  by (simp add: asof_def flat_cpi_def searchsorted_right_def)

lemma flat_cpi_end: "asof flat_cpi 1609459200000000000 = Inr (Fin 50)"
  by (simp add: asof_def flat_cpi_def searchsorted_right_def)

lemma demo_succeeded:
  "succeeded (calculate_real_return demo_lib 0 ''2020-01-01'' ''2021-01-01'' demo_cpi
     \<lparr>heap = [demo_nominal], stdout = []\<rparr>)"
proof -
  have "\<not> (Fin 100 = NaN \<or> Fin 125 = NaN \<or> Fin 100 = Fin 0)" by simp
  from calculate_real_return_success [OF demo_valid demo_no_error demo_start demo_end
    demo_cpi_start demo_cpi_end this demo_pct demo_amount]
  show ?thesis using real_fields_no_error [OF demo_no_error]
    by (simp add: succeeded_def result_dict_def)
qed

lemma flat_succeeded:
  "succeeded (calculate_real_return demo_lib 0 ''2020-01-01'' ''2021-01-01'' flat_cpi
     \<lparr>heap = [demo_nominal], stdout = []\<rparr>)"
proof -
  have "\<not> (Fin 50 = NaN \<or> Fin 50 = NaN \<or> Fin 50 = Fin 0)" by simp
  from calculate_real_return_success [OF demo_valid demo_no_error demo_start demo_end
    flat_cpi_start flat_cpi_end this demo_pct demo_amount]
  show ?thesis using real_fields_no_error [OF demo_no_error]
    by (simp add: succeeded_def result_dict_def)
qed

text \<open>
  Claim C2, as amended. In every successful real-return calculation whose inflation rate
  \<open>cpi_end / cpi_start - 1\<close> is exactly 0, the resulting \<open>real_total_return_pct\<close> equals
  the \<open>nominal_total_return_pct\<close> of the nominal record, rounded to two decimals: with no
  inflation the real return is the nominal return, and it is 0 only when the nominal return
  rounds to 0.
\<close>

theorem real_zero_inflation:
  assumes "r < length (heap s)"
    and "succeeded (calculate_real_return L r start_date end_date cpi_data s)"
    and "to_datetime L start_date = Inr start_dt" and "to_datetime L end_date = Inr end_dt"
    and "asof cpi_data start_dt = Inr c_s" and "asof cpi_data end_dt = Inr c_e"
    and "map_of (heap s ! r) ''nominal_total_return_pct'' = Some (Num pct)"
    and "c_e / c_s - Fin 1 = Fin 0"
  shows "result_field ''real_total_return_pct''
           (calculate_real_return L r start_date end_date cpi_data s)
         = Some (Num (round2 pct))"
  using real_succeeded_field [OF assms(1-7), of "''real_total_return_pct''"] assms(8)
  by (auto simp add: map_of_real_fields fl_zero_inflation)

text \<open>The amended claim at the record of \<open>demo_nominal\<close> (100 percent) and a flat CPI.\<close>

theorem real_zero_inflation_witness:
  "0 < length (heap \<lparr>heap = [demo_nominal], stdout = []\<rparr>)
   \<and> succeeded (calculate_real_return demo_lib 0 ''2020-01-01'' ''2021-01-01'' flat_cpi
        \<lparr>heap = [demo_nominal], stdout = []\<rparr>)
   \<and> asof flat_cpi 1577836800000000000 = Inr (Fin 50)
   \<and> asof flat_cpi 1609459200000000000 = Inr (Fin 50)
   \<and> Fin 50 / Fin 50 - Fin 1 = Fin 0
   \<and> result_field ''real_total_return_pct''
        (calculate_real_return demo_lib 0 ''2020-01-01'' ''2021-01-01'' flat_cpi
           \<lparr>heap = [demo_nominal], stdout = []\<rparr>)
      = Some (Num (round2 (Fin 100)))"
proof -
  have zero: "Fin 50 / Fin 50 - Fin 1 = Fin 0"
    by (simp add: divide_fl_def minus_fl_def)
  from real_zero_inflation [OF demo_valid flat_succeeded demo_start demo_end
    flat_cpi_start flat_cpi_end demo_pct zero]
  show ?thesis using demo_valid flat_succeeded flat_cpi_start flat_cpi_end zero by blast
qed

text \<open>
  Claim C2 as stated fails. For the record of \<open>demo_nominal\<close>, whose nominal return is 100
  percent, and a CPI of 50 at both dates, the inflation rate is exactly 0, the calculation
  succeeds, and \<open>real_total_return_pct\<close> is 100, not 0.
\<close>

theorem real_zero_inflation_counterexample:
  "asof flat_cpi 1577836800000000000 = Inr (Fin 50)
   \<and> asof flat_cpi 1609459200000000000 = Inr (Fin 50)
   \<and> Fin 50 / Fin 50 - Fin 1 = Fin 0
   \<and> succeeded (calculate_real_return demo_lib 0 ''2020-01-01'' ''2021-01-01'' flat_cpi
        \<lparr>heap = [demo_nominal], stdout = []\<rparr>)
   \<and> result_field ''real_total_return_pct''
        (calculate_real_return demo_lib 0 ''2020-01-01'' ''2021-01-01'' flat_cpi
           \<lparr>heap = [demo_nominal], stdout = []\<rparr>)
      = Some (Num (Fin 100))
   \<and> Fin 100 \<noteq> Fin 0"
proof -
  have zero: "Fin 50 / Fin 50 - Fin 1 = Fin 0"
    by (simp add: divide_fl_def minus_fl_def)
  have "\<not> (Fin 50 = NaN \<or> Fin 50 = NaN \<or> Fin 50 = Fin 0)" by simp
  from calculate_real_return_success [OF demo_valid demo_no_error demo_start demo_end
    flat_cpi_start flat_cpi_end this demo_pct demo_amount]
  have "result_field ''real_total_return_pct''
        (calculate_real_return demo_lib 0 ''2020-01-01'' ''2021-01-01'' flat_cpi
           \<lparr>heap = [demo_nominal], stdout = []\<rparr>)
      = Some (Num (Fin 100))"
    by (simp add: result_field_def result_dict_def map_of_real_fields plus_fl_def
          minus_fl_def times_fl_def divide_fl_def round_half_even_def Let_def)
  with flat_cpi_start flat_cpi_end zero flat_succeeded show ?thesis by simp
qed

text \<open>
  Claim C4. In every successful real-return calculation, with
  \<open>years = (end - start).days / 365.25\<close>, \<open>nominal_factor = 1 + nominal_total_return_pct / 100\<close>
  and \<open>real_factor = nominal_factor / (1 + inflation_rate)\<close>: if \<open>years > 0\<close> then
  \<open>nominal_cagr_pct\<close> is \<open>(nominal_factor ** (1 / years) - 1) * 100\<close> and
  \<open>real_cagr_pct\<close> is \<open>(real_factor ** (1 / years) - 1) * 100\<close>, each rounded to two
  decimals; otherwise both fields are 0. The CAGR step divides by \<open>years\<close> under the guard
  \<open>years > 0\<close> only, so in every state it returns without a \<open>ZeroDivisionError\<close>.
\<close>

theorem cagr_formula:
  assumes "r < length (heap s)"
    and "succeeded (calculate_real_return L r start_date end_date cpi_data s)"
    and "to_datetime L start_date = Inr start_dt" and "to_datetime L end_date = Inr end_dt"
    and "asof cpi_data start_dt = Inr c_s" and "asof cpi_data end_dt = Inr c_e"
    and "map_of (heap s ! r) ''nominal_total_return_pct'' = Some (Num pct)"
    and "years = real_of_int (days (end_dt - start_dt)) / 365.25"
    and "nominal_factor = Fin 1 + pct / Fin 100"
    and "real_factor = nominal_factor / (Fin 1 + (c_e / c_s - Fin 1))"
  shows "(if 0 < years
          then result_field ''nominal_cagr_pct''
                 (calculate_real_return L r start_date end_date cpi_data s)
               = Some (Num (round2 ((fl_pow nominal_factor (1 / years) - Fin 1) * Fin 100)))
             \<and> result_field ''real_cagr_pct''
                 (calculate_real_return L r start_date end_date cpi_data s)
               = Some (Num (round2 ((fl_pow real_factor (1 / years) - Fin 1) * Fin 100)))
          else result_field ''nominal_cagr_pct''
                 (calculate_real_return L r start_date end_date cpi_data s)
               = Some (Num (Fin 0))
             \<and> result_field ''real_cagr_pct''
                 (calculate_real_return L r start_date end_date cpi_data s)
               = Some (Num (Fin 0)))
     \<and> fst (cagr_fields r nominal_factor real_factor start_dt end_dt s0) = Inr ()"
  unfolding assms(8-10)
  using real_succeeded_field [OF assms(1-7), of "''nominal_cagr_pct''"]
    real_succeeded_field [OF assms(1-7), of "''real_cagr_pct''"]
  by (auto simp add: map_of_real_fields cagr_fields_returns)

text \<open>
  Claim C4 at the record of \<open>demo_nominal\<close> and \<open>demo_cpi\<close>: 366 days are more than
  zero years, the nominal factor is 2 and the real factor is 2 / 1.25.
\<close>

theorem cagr_formula_witness:
  "0 < real_of_int (days (1609459200000000000 - 1577836800000000000)) / 365.25
   \<and> succeeded (calculate_real_return demo_lib 0 ''2020-01-01'' ''2021-01-01'' demo_cpi
        \<lparr>heap = [demo_nominal], stdout = []\<rparr>)
   \<and> result_field ''nominal_cagr_pct''
        (calculate_real_return demo_lib 0 ''2020-01-01'' ''2021-01-01'' demo_cpi
           \<lparr>heap = [demo_nominal], stdout = []\<rparr>)
      = Some (Num (round2 ((fl_pow (Fin 1 + Fin 100 / Fin 100)
            (1 / (real_of_int (days (1609459200000000000 - 1577836800000000000)) / 365.25))
          - Fin 1) * Fin 100)))
   \<and> result_field ''real_cagr_pct''
        (calculate_real_return demo_lib 0 ''2020-01-01'' ''2021-01-01'' demo_cpi
           \<lparr>heap = [demo_nominal], stdout = []\<rparr>)
      = Some (Num (round2 ((fl_pow
            ((Fin 1 + Fin 100 / Fin 100) / (Fin 1 + (Fin 125 / Fin 100 - Fin 1)))
            (1 / (real_of_int (days (1609459200000000000 - 1577836800000000000)) / 365.25))
          - Fin 1) * Fin 100)))"
proof -
  have pos: "0 < real_of_int (days (1609459200000000000 - 1577836800000000000)) / 365.25"
    by (simp add: days_def)
  from cagr_formula [OF demo_valid demo_succeeded demo_start demo_end demo_cpi_start
    demo_cpi_end demo_pct refl refl refl]
  show ?thesis using pos demo_succeeded by presburger
qed

text \<open>
  Claim C5. For a dict without \<open>error\<close> key and date strings that parse,
  \<open>calculate_real_return\<close> returns the error record
  \<open>Insufficient CPI data for the selected period.\<close> if and only if the as-of lookup of
  the CPI series at the start is missing (NaN), or the one at the end is missing, or the CPI
  value at the start is exactly 0. On a sorted series a lookup is missing when no
  observation at or before the date has a value (\<open>asof_missing_iff\<close>). In every other case the quotient \<open>cpi_end / cpi_start\<close>
  is not reached or has a denominator that is a number other than 0.
\<close>

theorem real_insufficient_iff:
  assumes "r < length (heap s)"
    and "''error'' \<notin> set (map fst (heap s ! r))"
    and "to_datetime L start_date = Inr start_dt" and "to_datetime L end_date = Inr end_dt"
  shows "result_field ''error'' (calculate_real_return L r start_date end_date cpi_data s)
           = Some (Str ''Insufficient CPI data for the selected period.'')
     \<longleftrightarrow> asof cpi_data start_dt = Inr NaN \<or> asof cpi_data end_dt = Inr NaN
         \<or> asof cpi_data start_dt = Inr (Fin 0)"
proof -
  from real_cases [OF assms(2), of L start_date end_date cpi_data]
  consider
    (raised) e where
      "calculate_real_return L r start_date end_date cpi_data s = real_handler e s"
      "\<not> (\<exists>start_dt end_dt c_s c_e. to_datetime L start_date = Inr start_dt
             \<and> to_datetime L end_date = Inr end_dt
             \<and> asof cpi_data start_dt = Inr c_s \<and> asof cpi_data end_dt = Inr c_e
             \<and> (c_s = NaN \<or> c_e = NaN \<or> c_s = Fin 0))"
  | (insufficient) t1 t2 c_s c_e where
      "to_datetime L start_date = Inr t1" "to_datetime L end_date = Inr t2"
      "asof cpi_data t1 = Inr c_s" "asof cpi_data t2 = Inr c_e"
      "c_s = NaN \<or> c_e = NaN \<or> c_s = Fin 0"
      "calculate_real_return L r start_date end_date cpi_data s =
         (Inr (length (heap s)),
          s\<lparr>heap := heap s @
            [[(''error'', Str ''Insufficient CPI data for the selected period.'')]]\<rparr>)"
  | (computed) t1 t2 c_s c_e pct amount where
      "to_datetime L start_date = Inr t1" "to_datetime L end_date = Inr t2"
      "asof cpi_data t1 = Inr c_s" "asof cpi_data t2 = Inr c_e"
      "\<not> (c_s = NaN \<or> c_e = NaN \<or> c_s = Fin 0)"
      "calculate_real_return L r start_date end_date cpi_data s =
         (Inr r, s\<lparr>heap := (heap s)[r := real_fields c_s c_e pct amount
            (real_of_int (days (t2 - t1)) / 365.25) (heap s ! r)]\<rparr>)"
    using assms(1) by blast
  then show ?thesis
  proof cases
    case raised
    have lhs: "result_field ''error''
        (calculate_real_return L r start_date end_date cpi_data s)
        \<noteq> Some (Str ''Insufficient CPI data for the selected period.'')"
      by (simp add: raised(1) real_handler_def result_field_def result_dict_def)
    have rhs: "\<not> (asof cpi_data start_dt = Inr NaN \<or> asof cpi_data end_dt = Inr NaN
         \<or> asof cpi_data start_dt = Inr (Fin 0))"
    proof
      assume a: "asof cpi_data start_dt = Inr NaN \<or> asof cpi_data end_dt = Inr NaN
         \<or> asof cpi_data start_dt = Inr (Fin 0)"
      have "\<exists>c_s. asof cpi_data start_dt = Inr c_s"
        using a asof_raises_same [of cpi_data start_dt _ end_dt]
        by (cases "asof cpi_data start_dt") auto
      moreover have "\<exists>c_e. asof cpi_data end_dt = Inr c_e"
        using a asof_raises_same [of cpi_data end_dt _ start_dt]
        by (cases "asof cpi_data end_dt") auto
      ultimately show False using a raised(2) assms(3,4) by auto
    qed
    from lhs rhs show ?thesis by simp
  next
    case insufficient
    with assms(3,4) show ?thesis
      by (auto simp add: result_field_def result_dict_def)
  next
    case computed
    have "map_of (real_fields c_s c_e pct amount (real_of_int (days (t2 - t1)) / 365.25)
        (heap s ! r)) ''error'' = None"
      using assms(2) by (simp add: map_of_real_fields map_of_eq_None_iff)
    with computed assms(1,3,4) show ?thesis
      by (auto simp add: result_field_def result_dict_def)
  qed
qed

text \<open>
  Claim C5 at a CPI series whose only observation is later than the start date: the lookup
  at the start is missing, and the call returns the error record.
\<close>

theorem real_insufficient_iff_witness:
  "0 < length (heap \<lparr>heap = [demo_nominal], stdout = []\<rparr>)
   \<and> ''error'' \<notin> set (map fst (heap \<lparr>heap = [demo_nominal], stdout = []\<rparr> ! 0))
   \<and> asof [(1606780800000000000, Fin 125)] 1577836800000000000 = Inr NaN
   \<and> result_field ''error''
        (calculate_real_return demo_lib 0 ''2020-01-01'' ''2021-01-01''
           [(1606780800000000000, Fin 125)] \<lparr>heap = [demo_nominal], stdout = []\<rparr>)
      = Some (Str ''Insufficient CPI data for the selected period.'')"
proof -
  have missing: "asof [(1606780800000000000, Fin 125)] 1577836800000000000 = Inr NaN"
    by (simp add: asof_def)
  from real_insufficient_iff [OF demo_valid demo_no_error demo_start demo_end,
    of "[(1606780800000000000, Fin 125)]"] missing
  have "result_field ''error''
        (calculate_real_return demo_lib 0 ''2020-01-01'' ''2021-01-01''
           [(1606780800000000000, Fin 125)] \<lparr>heap = [demo_nominal], stdout = []\<rparr>)
      = Some (Str ''Insufficient CPI data for the selected period.'')"
    by blast
  with demo_valid demo_no_error missing show ?thesis by blast
qed

text \<open>
  Claim C10. A successful \<open>calculate_real_return\<close> returns the reference it was given,
  allocates no dict, prints nothing and leaves every other dict of the store as it was. In
  the dict it was given, the fields \<open>start_date\<close>, \<open>end_date\<close>,
  \<open>initial_investment\<close>, \<open>final_nominal_value\<close> and \<open>nominal_total_return_pct\<close> are
  what they were, the five real-return and CAGR fields are present, and
  \<open>calculation_notes\<close> holds a string that differs from the note of
  \<open>calculate_nominal_return\<close>. The caller's nominal record is thus modified in place.
\<close>

theorem real_mutates_in_place:
  assumes "r < length (heap s)"
    and "succeeded (calculate_real_return L r start_date end_date cpi_data s)"
    and "out = calculate_real_return L r start_date end_date cpi_data s"
  shows "fst out = Inr r
     \<and> length (heap (snd out)) = length (heap s)
     \<and> stdout (snd out) = stdout s
     \<and> (\<forall>i. i \<noteq> r \<longrightarrow> heap (snd out) ! i = heap s ! i)
     \<and> (\<forall>k \<in> {''start_date'', ''end_date'', ''initial_investment'',
               ''final_nominal_value'', ''nominal_total_return_pct''}.
           result_field k out = map_of (heap s ! r) k)
     \<and> (\<forall>k \<in> {''final_real_value'', ''real_total_return_pct'', ''total_inflation_pct'',
               ''nominal_cagr_pct'', ''real_cagr_pct''}.
           result_field k out \<noteq> None)
     \<and> result_field ''calculation_notes'' out
         = Some (Str (''Simplified nominal return (no dividend reinvestment). ''
                      @ ''Real return adjusted using CPI.''))
     \<and> ''Simplified nominal return (no dividend reinvestment). ''
         @ ''Real return adjusted using CPI.''
         \<noteq> ''Simplified calculation without actual dividend reinvestment.''"
proof -
  from real_succeeded_cases [OF assms(1,2)]
  obtain start_dt end_dt c_s c_e pct amount where
    "calculate_real_return L r start_date end_date cpi_data s =
       (Inr r, s\<lparr>heap := (heap s)[r := real_fields c_s c_e pct amount
          (real_of_int (days (end_dt - start_dt)) / 365.25) (heap s ! r)]\<rparr>)"
    by blast
  with assms(1,3) show ?thesis
    by (simp add: result_field_def result_dict_def map_of_real_fields)
qed

text \<open>Claim C10 at the record of \<open>demo_nominal\<close>, held at address 0, and \<open>demo_cpi\<close>.\<close>

theorem real_mutates_in_place_witness:
  "0 < length (heap \<lparr>heap = [demo_nominal], stdout = []\<rparr>)
   \<and> succeeded (calculate_real_return demo_lib 0 ''2020-01-01'' ''2021-01-01'' demo_cpi
        \<lparr>heap = [demo_nominal], stdout = []\<rparr>)
   \<and> fst (calculate_real_return demo_lib 0 ''2020-01-01'' ''2021-01-01'' demo_cpi
        \<lparr>heap = [demo_nominal], stdout = []\<rparr>) = Inr 0
   \<and> length (heap (snd (calculate_real_return demo_lib 0 ''2020-01-01'' ''2021-01-01''
        demo_cpi \<lparr>heap = [demo_nominal], stdout = []\<rparr>))) = 1
   \<and> result_field ''nominal_total_return_pct''
        (calculate_real_return demo_lib 0 ''2020-01-01'' ''2021-01-01'' demo_cpi
           \<lparr>heap = [demo_nominal], stdout = []\<rparr>) = Some (Num (Fin 100))
   \<and> result_field ''calculation_notes''
        (calculate_real_return demo_lib 0 ''2020-01-01'' ''2021-01-01'' demo_cpi
           \<lparr>heap = [demo_nominal], stdout = []\<rparr>)
      = Some (Str (''Simplified nominal return (no dividend reinvestment). ''
                   @ ''Real return adjusted using CPI.''))"
proof -
  from real_mutates_in_place [OF demo_valid demo_succeeded refl]
  show ?thesis using demo_valid demo_succeeded demo_pct by simp
qed

section \<open>No exception leaves a calculator\<close>





section \<open>Determinism\<close>

text \<open>
  The dict \<open>calculate_real_return\<close> returns is a function of the arguments and of the
  contents of the dict it is given: the address of that dict, the other dicts of the store
  and the lines printed so far have no influence.
\<close>

lemma real_result_depends_on_dict:
  "\<exists>d'. \<forall>r s. r < length (heap s) \<and> heap s ! r = d \<longrightarrow>
     result_dict (calculate_real_return L r start_date end_date cpi_data s) = Some d'"
proof (cases "''error'' \<in> set (map fst d)")
  case True
  then have "\<forall>r s. r < length (heap s) \<and> heap s ! r = d \<longrightarrow>
     result_dict (calculate_real_return L r start_date end_date cpi_data s) = Some d"
    by (simp add: calculate_real_return_def result_dict_def)
  then show ?thesis by blast
next
  case False
  from real_cases [OF False, of L start_date end_date cpi_data]
  consider
    (raised) e where
      "\<forall>r s. r < length (heap s) \<and> heap s ! r = d \<longrightarrow>
         calculate_real_return L r start_date end_date cpi_data s = real_handler e s"
  | (insufficient)
      "\<forall>r s. r < length (heap s) \<and> heap s ! r = d \<longrightarrow>
         calculate_real_return L r start_date end_date cpi_data s =
           (Inr (length (heap s)),
            s\<lparr>heap := heap s @
              [[(''error'', Str ''Insufficient CPI data for the selected period.'')]]\<rparr>)"
  | (computed) start_dt end_dt c_s c_e pct amount where
      "\<forall>r s. r < length (heap s) \<and> heap s ! r = d \<longrightarrow>
         calculate_real_return L r start_date end_date cpi_data s =
           (Inr r, s\<lparr>heap := (heap s)[r := real_fields c_s c_e pct amount
              (real_of_int (days (end_dt - start_dt)) / 365.25) d]\<rparr>)"
    by blast
  then show ?thesis
  proof cases
    case raised
    then have "\<forall>r s. r < length (heap s) \<and> heap s ! r = d \<longrightarrow>
       result_dict (calculate_real_return L r start_date end_date cpi_data s)
         = Some [(''error'', Str (''Real return calculation error: '' @ str_exn e))]"
      by (simp add: result_dict_def real_handler_def)
    then show ?thesis by blast
  next
    case insufficient
    then have "\<forall>r s. r < length (heap s) \<and> heap s ! r = d \<longrightarrow>
       result_dict (calculate_real_return L r start_date end_date cpi_data s)
         = Some [(''error'', Str ''Insufficient CPI data for the selected period.'')]"
      by (simp add: result_dict_def)
    then show ?thesis by blast
  next
    case computed
    then have "\<forall>r s. r < length (heap s) \<and> heap s ! r = d \<longrightarrow>
       result_dict (calculate_real_return L r start_date end_date cpi_data s)
         = Some (real_fields c_s c_e pct amount
              (real_of_int (days (end_dt - start_dt)) / 365.25) d)"
      by (simp add: result_dict_def)
    then show ?thesis by blast
  qed
qed

text \<open>
  Claim C9. Running \<open>calculate_nominal_return\<close> and then \<open>calculate_real_return\<close> on its
  result, with the same dates, investment, price series and CPI series, yields the same
  output dict from any two states: the one run does return a dict, and the other returns a
  dict with the same keys, in the same order, with the same values. The second state may be
  the one the first run left, which is the case of running the calculation twice.
\<close>

theorem two_runs_same_output:
  "\<exists>d. result_dict
          (bind (calculate_nominal_return L start_date end_date amount sp500_data)
             (\<lambda>nominal_result.
                calculate_real_return L nominal_result start_date end_date cpi_data) s1)
        = Some d
      \<and> result_dict
          (bind (calculate_nominal_return L start_date end_date amount sp500_data)
             (\<lambda>nominal_result.
                calculate_real_return L nominal_result start_date end_date cpi_data) s2)
        = Some d"
proof -
  from nominal_outcome [of L start_date end_date amount sp500_data]
  obtain d0 lines where nominal:
    "\<forall>s. calculate_nominal_return L start_date end_date amount sp500_data s =
       (Inr (length (heap s)), s\<lparr>heap := heap s @ [d0], stdout := stdout s @ lines\<rparr>)"
    by blast
  from real_result_depends_on_dict [of d0 L start_date end_date cpi_data]
  obtain d where real:
    "\<forall>r s. r < length (heap s) \<and> heap s ! r = d0 \<longrightarrow>
       result_dict (calculate_real_return L r start_date end_date cpi_data s) = Some d"
    by blast
  have run: "result_dict
          (bind (calculate_nominal_return L start_date end_date amount sp500_data)
             (\<lambda>nominal_result.
                calculate_real_return L nominal_result start_date end_date cpi_data) s)
        = Some d" for s
  proof -
    have "bind (calculate_nominal_return L start_date end_date amount sp500_data)
             (\<lambda>nominal_result.
                calculate_real_return L nominal_result start_date end_date cpi_data) s
          = calculate_real_return L (length (heap s)) start_date end_date cpi_data
              (s\<lparr>heap := heap s @ [d0], stdout := stdout s @ lines\<rparr>)"
      by (simp add: bind_def nominal)
    moreover have "result_dict
        (calculate_real_return L (length (heap s)) start_date end_date cpi_data
           (s\<lparr>heap := heap s @ [d0], stdout := stdout s @ lines\<rparr>)) = Some d"
      by (rule real [rule_format]) simp
    ultimately show ?thesis by simp
  qed
  from run [of s1] run [of s2] show ?thesis by blast
qed

end
